theory Spec2Isabelle
  imports Main "HOL-Library.Word"
begin

unbundle bit_operations_syntax

section \<open>Data model (chip8.h)\<close>

type_synonym u8 = "8 word"
type_synonym u16 = "16 word"

text \<open>The \<open>static constexpr\<close> constants of class \<open>Chip8\<close>.\<close>

definition MEMORY_SIZE :: nat where "MEMORY_SIZE = 4096"
definition REGISTER_COUNT :: nat where "REGISTER_COUNT = 16"
definition STACK_SIZE :: nat where "STACK_SIZE = 16"
definition KEY_COUNT :: nat where "KEY_COUNT = 16"
definition DISPLAY_WIDTH :: nat where "DISPLAY_WIDTH = 64"
definition DISPLAY_HEIGHT :: nat where "DISPLAY_HEIGHT = 32"
definition FONTSET_SIZE :: nat where "FONTSET_SIZE = 80"
definition ROM_START_ADDRESS :: u16 where "ROM_START_ADDRESS = 0x200"

definition fontset :: "u8 list" where
  "fontset =
    [0xF0, 0x90, 0x90, 0x90, 0xF0,
     0x20, 0x60, 0x20, 0x20, 0x70,
     0xF0, 0x10, 0xF0, 0x80, 0xF0,
     0xF0, 0x10, 0xF0, 0x10, 0xF0,
     0x90, 0x90, 0xF0, 0x10, 0x10,
     0xF0, 0x80, 0xF0, 0x10, 0xF0,
     0xF0, 0x80, 0xF0, 0x90, 0xF0,
     0xF0, 0x10, 0x20, 0x40, 0x40,
     0xF0, 0x90, 0xF0, 0x90, 0xF0,
     0xF0, 0x90, 0xF0, 0x10, 0xF0,
     0xF0, 0x90, 0xF0, 0x90, 0x90,
     0xE0, 0x90, 0xE0, 0x90, 0xE0,
     0xF0, 0x80, 0x80, 0x80, 0xF0,
     0xE0, 0x90, 0x90, 0x90, 0xE0,
     0xF0, 0x80, 0xF0, 0x80, 0xF0,
     0xF0, 0x80, 0xF0, 0x80, 0x80]"

text \<open>
  The private data members of class \<open>Chip8\<close>. Each \<open>std::array\<close> is a list; its fixed
  size is the invariant \<open>wf\<close> below. \<open>uint8_t\<close> and \<open>uint16_t\<close> are words, so \<open>+\<close> and
  \<open>-\<close> wrap around as in C++.
\<close>

record chip8 =
  memory :: "u8 list"
  V :: "u8 list"
  I :: u16
  pc :: u16
  display :: "u8 list"
  drawFlag :: bool
  delayTimer :: u8
  soundTimer :: u8
  stack :: "u16 list"
  sp :: u8
  keys :: "bool list"
  opcode :: u16

definition wf :: "chip8 \<Rightarrow> bool" where
  "wf s \<longleftrightarrow>
     length (memory s) = MEMORY_SIZE \<and>
     length (V s) = REGISTER_COUNT \<and>
     length (display s) = DISPLAY_WIDTH * DISPLAY_HEIGHT \<and>
     length (stack s) = STACK_SIZE \<and>
     length (keys s) = KEY_COUNT"

section \<open>Reset (Chip8::initialize)\<close>

text \<open>
  \<open>std::copy(fontset.begin(), fontset.end(), memory.begin())\<close> after \<open>memory.fill(0)\<close>:
  the 80 font bytes, then zeros. The message on standard output is not part of the state.
\<close>

definition initialize :: chip8 where
  "initialize =
     \<lparr> memory = fontset @ replicate (MEMORY_SIZE - FONTSET_SIZE) 0,
       V = replicate REGISTER_COUNT 0,
       I = 0,
       pc = ROM_START_ADDRESS,
       display = replicate (DISPLAY_WIDTH * DISPLAY_HEIGHT) 0,
       drawFlag = True,
       delayTimer = 0,
       soundTimer = 0,
       stack = replicate STACK_SIZE 0,
       sp = 0,
       keys = replicate KEY_COUNT False,
       opcode = 0 \<rparr>"

section \<open>Loader (Chip8::loadROM)\<close>

text \<open>
  The file system is a map from file names to contents; a name outside its domain cannot
  be opened. \<open>size\<close> is the length of the file, compared with
  \<open>MEMORY_SIZE - ROM_START_ADDRESS\<close>; \<open>file.read(&memory[ROM_START_ADDRESS], size)\<close>
  overwrites \<open>size\<close> bytes from index \<open>0x200\<close> on. The result is the returned \<open>bool\<close> and
  the machine afterwards.
\<close>

definition loadROM :: "(string \<rightharpoonup> u8 list) \<Rightarrow> string \<Rightarrow> chip8 \<Rightarrow> bool \<times> chip8" where
  "loadROM fs filename s =
     (case fs filename of
        None \<Rightarrow> (False, s)
      | Some bytes \<Rightarrow>
          (let size = length bytes in
           if size > MEMORY_SIZE - unat ROM_START_ADDRESS then (False, s)
           else (True,
                 s\<lparr>memory := take (unat ROM_START_ADDRESS) (memory s) @ bytes @
                               drop (unat ROM_START_ADDRESS + size) (memory s)\<rparr>)))"

section \<open>Interpreter (Chip8::executeOpcode, Chip8::emulateCycle)\<close>

text \<open>
  \<open>std::array::operator[]\<close> does not check its index: an index outside the array is
  undefined behaviour in C++, not an error the program detects. The model makes every such
  access a result of its own, \<open>Out_of_bounds\<close> with the array and the index used, so that
  a claim about memory safety can be stated. The registers are indexed by a nibble, which is
  always below 16.
\<close>

datatype array_name = Memory_array | Stack_array

datatype undefined_behaviour = Out_of_bounds array_name nat

text \<open>The lines the interpreter writes to \<open>std::cerr\<close>.\<close>

datatype diagnostic =
    Unknown_opcode u16
  | Todo_8XYN
  | Not_yet_implemented u16

type_synonym outcome = "undefined_behaviour + (diagnostic list \<times> chip8)"

definition executeOpcode :: "chip8 \<Rightarrow> outcome" where
  "executeOpcode s =
     (let X = (ucast (drop_bit 8 (opcode s AND 0x0F00)) :: u8);
          Y = (ucast (drop_bit 4 (opcode s AND 0x00F0)) :: u8);
          N = (ucast (opcode s AND 0x000F) :: u8);
          NN = (ucast (opcode s AND 0x00FF) :: u8);
          NNN = opcode s AND 0x0FFF;
          family = opcode s AND 0xF000
      in
      if family = 0x0000 then
        (if NN = 0xE0 then
           Inr ([], s\<lparr>display := replicate (DISPLAY_WIDTH * DISPLAY_HEIGHT) 0,
                      drawFlag := True, pc := pc s + 2\<rparr>)
         else if NN = 0xEE then
           (let sp' = sp s - 1 in
            if unat sp' < STACK_SIZE
            then Inr ([], s\<lparr>sp := sp', pc := stack s ! unat sp' + 2\<rparr>)
            else Inl (Out_of_bounds Stack_array (unat sp')))
         else Inr ([Unknown_opcode (opcode s)], s\<lparr>pc := pc s + 2\<rparr>))
      else if family = 0x1000 then Inr ([], s\<lparr>pc := NNN\<rparr>)
      else if family = 0x2000 then
        (if unat (sp s) < STACK_SIZE
         then Inr ([], s\<lparr>stack := (stack s)[unat (sp s) := pc s], sp := sp s + 1, pc := NNN\<rparr>)
         else Inl (Out_of_bounds Stack_array (unat (sp s))))
      else if family = 0x3000 then
        Inr ([], s\<lparr>pc := pc s + (if V s ! unat X = NN then 4 else 2)\<rparr>)
      else if family = 0x4000 then
        Inr ([], s\<lparr>pc := pc s + (if V s ! unat X \<noteq> NN then 4 else 2)\<rparr>)
      else if family = 0x5000 then
        Inr ([], s\<lparr>pc := pc s + (if V s ! unat X = V s ! unat Y then 4 else 2)\<rparr>)
      else if family = 0x6000 then
        Inr ([], s\<lparr>V := (V s)[unat X := NN], pc := pc s + 2\<rparr>)
      else if family = 0x7000 then
        Inr ([], s\<lparr>V := (V s)[unat X := V s ! unat X + NN], pc := pc s + 2\<rparr>)
      else if family = 0x8000 then
        Inr ([Todo_8XYN], s\<lparr>pc := pc s + 2\<rparr>)
      else if family = 0x9000 then
        Inr ([], s\<lparr>pc := pc s + (if V s ! unat X \<noteq> V s ! unat Y then 4 else 2)\<rparr>)
      else if family = 0xA000 then
        Inr ([], s\<lparr>I := NNN, pc := pc s + 2\<rparr>)
      else
        Inr ([Not_yet_implemented (opcode s)], s\<lparr>pc := pc s + 2\<rparr>))"

text \<open>
  A read \<open>memory[i]\<close>. It yields the index it uses together with the byte found there, or
  the undefined access when the index is outside the array. A computation that reads memory
  carries the list of the indices it has used, in order, so that what a piece of code reads
  is a consequence of its reads.
\<close>

type_synonym 'a traced = "nat list \<times> (undefined_behaviour + 'a)"

definition read_memory :: "chip8 \<Rightarrow> nat \<Rightarrow> u8 traced" where
  "read_memory s i =
     ([i], if i < MEMORY_SIZE then Inr (memory s ! i) else Inl (Out_of_bounds Memory_array i))"

text \<open>
  The fetch, \<open>opcode = (memory[pc] << 8) | memory[pc + 1]\<close>. Both operands are evaluated:
  the code reads \<open>memory[pc]\<close> and \<open>memory[pc + 1]\<close>, where \<open>pc + 1\<close> is computed in \<open>int\<close>
  and so does not wrap at 16 bits. The value is the two bytes read, combined as a
  \<open>uint16_t\<close>; when a read is outside the array the fetch is that undefined access (the
  first one, in the order written).
\<close>

definition fetch :: "chip8 \<Rightarrow> u16 traced" where
  "fetch s =
     (case read_memory s (unat (pc s)) of (t1, r1) \<Rightarrow>
      case read_memory s (unat (pc s) + 1) of (t2, r2) \<Rightarrow>
        (t1 @ t2,
         case r1 of
           Inl u \<Rightarrow> Inl u
         | Inr hi \<Rightarrow>
             (case r2 of
                Inl u \<Rightarrow> Inl u
              | Inr lo \<Rightarrow> Inr (push_bit 8 (ucast hi) OR ucast lo))))"

text \<open>The memory indices the fetch uses: the trace of its reads.\<close>

definition fetch_indices :: "chip8 \<Rightarrow> nat list" where
  "fetch_indices s = fst (fetch s)"

text \<open>
  \<open>emulateCycle\<close> stores the fetched word in \<open>opcode\<close> and calls \<open>executeOpcode\<close>.
\<close>

definition emulateCycle :: "chip8 \<Rightarrow> outcome" where
  "emulateCycle s =
     (case snd (fetch s) of
        Inl u \<Rightarrow> Inl u
      | Inr w \<Rightarrow> executeOpcode (s\<lparr>opcode := w\<rparr>))"

text \<open>
  The word the fetch yields when both of its reads are inside the array (lemma
  \<open>fetch_in_bounds\<close> below): \<open>(memory[pc] << 8) | memory[pc + 1]\<close> as a \<open>uint16_t\<close>.
\<close>

definition instruction_word :: "chip8 \<Rightarrow> u16" where
  "instruction_word s =
     push_bit 8 (ucast (memory s ! unat (pc s))) OR ucast (memory s ! (unat (pc s) + 1))"

text \<open>
  The driver (\<open>main\<close>) constructs the machine, loads the program and then calls
  \<open>emulateCycle\<close> again and again; \<open>cycles n\<close> is \<open>n\<close> such calls in a row, with the
  diagnostics collected in order, stopping at the first undefined access.
\<close>

fun cycles :: "nat \<Rightarrow> chip8 \<Rightarrow> outcome" where
  "cycles 0 s = Inr ([], s)"
| "cycles (Suc n) s =
     (case emulateCycle s of
        Inl u \<Rightarrow> Inl u
      | Inr (d, s') \<Rightarrow>
          (case cycles n s' of
             Inl u \<Rightarrow> Inl u
           | Inr (d', s'') \<Rightarrow> Inr (d @ d', s'')))"

section \<open>Timers (Chip8::updateTimers)\<close>

definition updateTimers :: "chip8 \<Rightarrow> chip8" where
  "updateTimers s =
     (let s1 = (if delayTimer s > 0 then s\<lparr>delayTimer := delayTimer s - 1\<rparr> else s)
      in if soundTimer s1 > 0 then s1\<lparr>soundTimer := soundTimer s1 - 1\<rparr> else s1)"

section \<open>The driver's start (main)\<close>

text \<open>
  \<open>main\<close> constructs the machine (the constructor calls \<open>initialize\<close>) and loads the ROM
  file named on the command line. \<open>boot rom\<close> is the machine \<open>main\<close> holds when its loop
  starts, for a ROM file with the contents \<open>rom\<close>; the states \<open>cycles n (boot rom)\<close> are
  the ones the running program reaches.
\<close>

definition boot :: "u8 list \<Rightarrow> chip8" where
  "boot rom = snd (loadROM [''rom.ch8'' \<mapsto> rom] ''rom.ch8'' initialize)"

section \<open>Vocabulary of the properties\<close>



text \<open>
  The specification's instruction table (section 4.3), as a predicate on instruction words:
  the words that match one of its patterns. This follows the specification, not the code;
  the code's decoder is \<open>executeOpcode\<close>.
\<close>

definition spec_known_pattern :: "u16 \<Rightarrow> bool" where
  "spec_known_pattern w \<longleftrightarrow>
     w = 0x00E0 \<or> w = 0x00EE \<or>
     w AND 0xF000 \<in> {0x1000, 0x2000, 0x3000, 0x4000, 0x6000, 0x7000,
                       0xA000, 0xB000, 0xC000, 0xD000} \<or>
     (w AND 0xF000 \<in> {0x5000, 0x9000} \<and> w AND 0x000F = 0) \<or>
     (w AND 0xF000 = 0x8000 \<and> w AND 0x000F \<in> {0, 1, 2, 3, 4, 5, 6, 7, 0xE}) \<or>
     (w AND 0xF000 = 0xE000 \<and> w AND 0x00FF \<in> {0x9E, 0xA1}) \<or>
     (w AND 0xF000 = 0xF000 \<and>
        w AND 0x00FF \<in> {0x07, 0x0A, 0x15, 0x18, 0x1E, 0x29, 0x33, 0x55, 0x65})"

section \<open>Timer properties\<close>

lemma updateTimers_eq:
  "updateTimers s =
     s\<lparr>delayTimer := (if delayTimer s > 0 then delayTimer s - 1 else 0),
       soundTimer := (if soundTimer s > 0 then soundTimer s - 1 else 0)\<rparr>"
  by (simp add: updateTimers_def Let_def word_neq_0_conv not_less)

lemma unat_delayTimer_updateTimers:
  "unat (delayTimer (updateTimers s)) = unat (delayTimer s) - 1"
  by (cases "delayTimer s = 0") (simp_all add: updateTimers_def Let_def unat_minus_one word_gt_0)

lemma unat_delayTimer_funpow:
  "unat (delayTimer ((updateTimers ^^ k) s)) = unat (delayTimer s) - k"
  by (induction k) (simp_all add: unat_delayTimer_updateTimers)

text \<open>
  C9. One call of \<open>updateTimers\<close> lowers the delay timer by one when it is above zero and
  leaves it at zero otherwise, does the same for the sound timer on its own, and changes no
  other field. From a delay timer of 30, sixty calls end at exactly 0, and after \<open>k\<close> calls
  (\<open>k \<le> 60\<close>) the timer stands at \<open>30 - k\<close> down to 0 and then stays there: it never wraps.
\<close>

theorem tickTimers_spec:
  "updateTimers s =
     s\<lparr>delayTimer := (if delayTimer s > 0 then delayTimer s - 1 else 0),
       soundTimer := (if soundTimer s > 0 then soundTimer s - 1 else 0)\<rparr>
   \<and> (delayTimer s = 30 \<longrightarrow>
        delayTimer ((updateTimers ^^ 60) s) = 0 \<and>
        (\<forall>k \<le> 60. unat (delayTimer ((updateTimers ^^ k) s)) = (if k \<le> 30 then 30 - k else 0)))"
proof -
  have "unat (delayTimer ((updateTimers ^^ 60) s)) = 0" if "delayTimer s = 30"
    using that by (simp add: unat_delayTimer_funpow)
  then have "delayTimer ((updateTimers ^^ 60) s) = 0" if "delayTimer s = 30"
    using that by (simp add: unat_eq_zero)
  moreover have "\<forall>k \<le> 60. unat (delayTimer ((updateTimers ^^ k) s)) = (if k \<le> 30 then 30 - k else 0)"
    if "delayTimer s = 30"
    using that by (simp add: unat_delayTimer_funpow)
  ultimately show ?thesis
    using updateTimers_eq by blast
qed

theorem tickTimers_spec_witness:
  "delayTimer (initialize\<lparr>delayTimer := 30\<rparr>) = 30 \<and>
   delayTimer ((updateTimers ^^ 60) (initialize\<lparr>delayTimer := 30\<rparr>)) = 0 \<and>
   unat (delayTimer ((updateTimers ^^ 29) (initialize\<lparr>delayTimer := 30\<rparr>))) = 1"
  using tickTimers_spec [of "initialize\<lparr>delayTimer := 30\<rparr>"] by simp

section \<open>Loader properties\<close>

lemma loadROM_Some:
  "fs filename = Some bytes \<Longrightarrow>
   loadROM fs filename s =
     (if length bytes > 3584 then (False, s)
      else (True, s\<lparr>memory := take 512 (memory s) @ bytes @ drop (512 + length bytes) (memory s)\<rparr>))"
  by (simp add: loadROM_def Let_def MEMORY_SIZE_def ROM_START_ADDRESS_def)

lemma length_fontset: "length fontset = 80"
  by (simp add: fontset_def)

lemma length_memory_initialize: "length (memory initialize) = 4096"
  by (simp add: initialize_def MEMORY_SIZE_def FONTSET_SIZE_def length_fontset)

lemma memory_initialize_work_area:
  "80 \<le> i \<Longrightarrow> i < 4096 \<Longrightarrow> memory initialize ! i = 0"
  by (simp add: initialize_def MEMORY_SIZE_def FONTSET_SIZE_def length_fontset nth_append)

lemma loaded_memory_nth:
  assumes "length m = 4096" "length bytes \<le> 3584" "i < 4096"
  shows "(take 512 m @ bytes @ drop (512 + length bytes) m) ! i =
           (if 512 \<le> i \<and> i < 512 + length bytes then bytes ! (i - 512) else m ! i)"
  using assms by (auto simp: nth_append min_def)

lemma loaded_memory_length:
  assumes "length m = 4096" "length bytes \<le> 3584"
  shows "length (take 512 m @ bytes @ drop (512 + length bytes) m) = 4096"
  using assms by simp

text \<open>
  C5. For a file that opens, with contents \<open>bytes\<close>: \<open>loadROM\<close> returns \<open>false\<close> exactly
  when the length exceeds 3584, and then the machine is unchanged. Otherwise only the memory
  changes: it keeps its size, holds \<open>bytes\<close> from address \<open>0x200\<close> on, and every address
  above the program (and every address below \<open>0x200\<close>) keeps its previous value.
\<close>

theorem loadROM_spec:
  assumes "fs filename = Some bytes" and "length (memory s) = MEMORY_SIZE"
  shows "(fst (loadROM fs filename s) = False \<longleftrightarrow> length bytes > 3584) \<and>
         (length bytes > 3584 \<longrightarrow> snd (loadROM fs filename s) = s) \<and>
         (length bytes \<le> 3584 \<longrightarrow>
            snd (loadROM fs filename s) = s\<lparr>memory := memory (snd (loadROM fs filename s))\<rparr> \<and>
            length (memory (snd (loadROM fs filename s))) = MEMORY_SIZE \<and>
            (\<forall>i < length bytes. memory (snd (loadROM fs filename s)) ! (0x200 + i) = bytes ! i) \<and>
            (\<forall>j. 0x200 + length bytes \<le> j \<and> j < MEMORY_SIZE \<longrightarrow>
                   memory (snd (loadROM fs filename s)) ! j = memory s ! j) \<and>
            (\<forall>j < 0x200. memory (snd (loadROM fs filename s)) ! j = memory s ! j))"
proof -
  have m: "length (memory s) = 4096"
    using assms(2) by (simp add: MEMORY_SIZE_def)
  show ?thesis
  proof (cases "length bytes > 3584")
    case True
    then show ?thesis using assms(1) by (simp add: loadROM_Some)
  next
    case False
    then have le: "length bytes \<le> 3584" by simp
    have "i < 4096 \<Longrightarrow> (take 512 (memory s) @ bytes @ drop (512 + length bytes) (memory s)) ! i =
           (if 512 \<le> i \<and> i < 512 + length bytes then bytes ! (i - 512) else memory s ! i)" for i
      by (rule loaded_memory_nth [OF m le])
    with le assms(1) m show ?thesis
      by (simp add: loadROM_Some MEMORY_SIZE_def)
  qed
qed

theorem loadROM_spec_witness:
  "fst (loadROM [''big.ch8'' \<mapsto> replicate 3584 0xAA] ''big.ch8'' initialize) = True \<and>
   memory (snd (loadROM [''big.ch8'' \<mapsto> replicate 3584 0xAA] ''big.ch8'' initialize)) ! 0xFFF = 0xAA \<and>
   fst (loadROM [''huge.ch8'' \<mapsto> replicate 3585 0xAA] ''huge.ch8'' initialize) = False \<and>
   snd (loadROM [''huge.ch8'' \<mapsto> replicate 3585 0xAA] ''huge.ch8'' initialize) = initialize"
proof -
  have m: "length (memory initialize) = MEMORY_SIZE"
    by (simp add: length_memory_initialize MEMORY_SIZE_def)
  have big: "[''big.ch8'' \<mapsto> replicate 3584 (0xAA :: u8)] ''big.ch8'' = Some (replicate 3584 0xAA)"
    by simp
  have huge: "[''huge.ch8'' \<mapsto> replicate 3585 (0xAA :: u8)] ''huge.ch8'' = Some (replicate 3585 0xAA)"
    by simp
  note B = loadROM_spec [of "[''big.ch8'' \<mapsto> replicate 3584 0xAA]" "''big.ch8''"
      "replicate 3584 0xAA" initialize, OF big m]
  note H = loadROM_spec [of "[''huge.ch8'' \<mapsto> replicate 3585 0xAA]" "''huge.ch8''"
      "replicate 3585 0xAA" initialize, OF huge m]
  have "\<forall>i < 3584. memory (snd (loadROM [''big.ch8'' \<mapsto> replicate 3584 0xAA] ''big.ch8'' initialize))
           ! (0x200 + i) = replicate 3584 (0xAA :: u8) ! i"
    using B by simp
  then have "memory (snd (loadROM [''big.ch8'' \<mapsto> replicate 3584 0xAA] ''big.ch8'' initialize))
           ! (0x200 + 3583) = replicate 3584 (0xAA :: u8) ! 3583"
    by (rule allE [of _ 3583]) simp
  then show ?thesis
    using B H by simp
qed

section \<open>The machine at the start of the run\<close>

lemma boot_fields:
  assumes "length rom \<le> 3584"
  shows "pc (boot rom) = 0x200" and "sp (boot rom) = 0" and "V (boot rom) = replicate 16 0"
    and "stack (boot rom) = replicate 16 0" and "I (boot rom) = 0"
    and "length (memory (boot rom)) = 4096"
  using assms
  by (simp_all add: boot_def loadROM_Some initialize_def ROM_START_ADDRESS_def
      REGISTER_COUNT_def STACK_SIZE_def MEMORY_SIZE_def FONTSET_SIZE_def length_fontset)

lemma boot_memory_nth:
  assumes "length rom \<le> 3584" and "512 \<le> i" and "i < 4096"
  shows "memory (boot rom) ! i = (if i < 512 + length rom then rom ! (i - 512) else 0)"
  using assms
  by (simp add: boot_def loadROM_Some loaded_memory_nth length_memory_initialize
      memory_initialize_work_area)

lemmas step_simps = emulateCycle_def fetch_def read_memory_def instruction_word_def
  executeOpcode_def Let_def MEMORY_SIZE_def STACK_SIZE_def boot_fields boot_memory_nth

section \<open>Fetch\<close>

lemma fetch_trace: "fst (fetch s) = [unat (pc s), unat (pc s) + 1]"
  by (simp add: fetch_def read_memory_def)

lemma fetch_in_bounds:
  "unat (pc s) + 1 < MEMORY_SIZE \<Longrightarrow>
   fetch s = ([unat (pc s), unat (pc s) + 1], Inr (instruction_word s))"
  by (simp add: fetch_def read_memory_def instruction_word_def)

lemma fetch_out_of_bounds:
  "\<not> unat (pc s) + 1 < MEMORY_SIZE \<Longrightarrow>
   fetch s =
     ([unat (pc s), unat (pc s) + 1],
      Inl (Out_of_bounds Memory_array
             (if unat (pc s) < MEMORY_SIZE then unat (pc s) + 1 else unat (pc s))))"
  by (simp add: fetch_def read_memory_def)

text \<open>An undefined access of the fetch is at an index the fetch really uses.\<close>

lemma fetch_undefined_index:
  assumes "snd (fetch s) = Inl (Out_of_bounds a i)"
  shows "a = Memory_array \<and> i \<in> set (fst (fetch s)) \<and> \<not> i < MEMORY_SIZE"
  using assms by (auto simp: fetch_def read_memory_def split: if_splits)

lemma emulateCycle_in_bounds:
  "unat (pc s) + 1 < MEMORY_SIZE \<Longrightarrow>
   emulateCycle s = executeOpcode (s\<lparr>opcode := instruction_word s\<rparr>)"
  by (simp add: emulateCycle_def fetch_in_bounds)

lemma emulateCycle_last_byte:
  "unat (pc s) + 1 = MEMORY_SIZE \<Longrightarrow>
   emulateCycle s = Inl (Out_of_bounds Memory_array MEMORY_SIZE)"
  by (simp add: emulateCycle_def fetch_out_of_bounds)

text \<open>
  C10. The fetch of a cycle reads memory at exactly two indices, \<open>pc\<close> and \<open>pc + 1\<close>, in
  every state. When the program counter is at most 4094 both are inside the 4096-byte
  memory, the fetch yields the word made of the two bytes found there, and the cycle goes on
  to execute that word. The program \<open>1F FF\<close> (jump to \<open>0xFFF\<close>) leads, after one cycle from
  the start, to a state whose program counter is \<open>0xFFF\<close>; the fetch of the next cycle reads
  the indices 4095 and 4096, and the read at 4096 is outside the memory array, which is
  what that cycle, and so the run of two cycles, ends in.
\<close>

theorem fetch_bounds:
  "fetch_indices s = [unat (pc s), unat (pc s) + 1] \<and>
   (unat (pc s) \<le> 4094 \<longrightarrow>
      (\<forall>i \<in> set (fetch_indices s). i < MEMORY_SIZE) \<and>
      fetch s =
        ([unat (pc s), unat (pc s) + 1],
         Inr (push_bit 8 (ucast (memory s ! unat (pc s))) OR
              ucast (memory s ! (unat (pc s) + 1)))) \<and>
      emulateCycle s = executeOpcode (s\<lparr>opcode := instruction_word s\<rparr>)) \<and>
   emulateCycle (boot [0x1F, 0xFF]) = Inr ([], (boot [0x1F, 0xFF])\<lparr>pc := 0xFFF, opcode := 0x1FFF\<rparr>) \<and>
   fetch ((boot [0x1F, 0xFF])\<lparr>pc := 0xFFF, opcode := 0x1FFF\<rparr>) =
     ([4095, 4096], Inl (Out_of_bounds Memory_array 4096)) \<and>
   emulateCycle ((boot [0x1F, 0xFF])\<lparr>pc := 0xFFF, opcode := 0x1FFF\<rparr>) =
     Inl (Out_of_bounds Memory_array 4096) \<and>
   cycles 2 (boot [0x1F, 0xFF]) = Inl (Out_of_bounds Memory_array 4096)"
proof -
  have t: "fetch_indices s = [unat (pc s), unat (pc s) + 1]"
    by (simp add: fetch_indices_def fetch_trace)
  have a: "unat (pc s) \<le> 4094 \<longrightarrow>
      (\<forall>i \<in> set (fetch_indices s). i < MEMORY_SIZE) \<and>
      fetch s =
        ([unat (pc s), unat (pc s) + 1],
         Inr (push_bit 8 (ucast (memory s ! unat (pc s))) OR
              ucast (memory s ! (unat (pc s) + 1)))) \<and>
      emulateCycle s = executeOpcode (s\<lparr>opcode := instruction_word s\<rparr>)"
  proof
    assume "unat (pc s) \<le> 4094"
    then have b: "unat (pc s) + 1 < MEMORY_SIZE"
      by (simp add: MEMORY_SIZE_def)
    have "\<forall>i \<in> set (fetch_indices s). i < MEMORY_SIZE"
      using b by (simp add: t)
    moreover have "fetch s =
        ([unat (pc s), unat (pc s) + 1],
         Inr (push_bit 8 (ucast (memory s ! unat (pc s))) OR
              ucast (memory s ! (unat (pc s) + 1))))"
      using fetch_in_bounds [OF b] by (simp add: instruction_word_def)
    moreover have "emulateCycle s = executeOpcode (s\<lparr>opcode := instruction_word s\<rparr>)"
      by (rule emulateCycle_in_bounds [OF b])
    ultimately show "(\<forall>i \<in> set (fetch_indices s). i < MEMORY_SIZE) \<and>
      fetch s =
        ([unat (pc s), unat (pc s) + 1],
         Inr (push_bit 8 (ucast (memory s ! unat (pc s))) OR
              ucast (memory s ! (unat (pc s) + 1)))) \<and>
      emulateCycle s = executeOpcode (s\<lparr>opcode := instruction_word s\<rparr>)"
      by blast
  qed
  have b: "emulateCycle (boot [0x1F, 0xFF]) =
      Inr ([], (boot [0x1F, 0xFF])\<lparr>pc := 0xFFF, opcode := 0x1FFF\<rparr>)"
    by (simp add: step_simps)
  have c: "fetch ((boot [0x1F, 0xFF])\<lparr>pc := 0xFFF, opcode := 0x1FFF\<rparr>) =
      ([4095, 4096], Inl (Out_of_bounds Memory_array 4096))"
    by (simp add: fetch_def read_memory_def MEMORY_SIZE_def)
  have d: "emulateCycle ((boot [0x1F, 0xFF])\<lparr>pc := 0xFFF, opcode := 0x1FFF\<rparr>) =
      Inl (Out_of_bounds Memory_array 4096)"
    by (simp add: emulateCycle_def c)
  have e: "cycles 2 (boot [0x1F, 0xFF]) = Inl (Out_of_bounds Memory_array 4096)"
    by (simp add: numeral_2_eq_2 b d)
  from t a b c d e show ?thesis by blast
qed

theorem fetch_bounds_witness:
  "emulateCycle (boot [0x12, 0x04, 0x00, 0x00, 0x6A, 0x15]) =
     Inr ([], (boot [0x12, 0x04, 0x00, 0x00, 0x6A, 0x15])\<lparr>pc := 0x204, opcode := 0x1204\<rparr>) \<and>
   unat (pc ((boot [0x12, 0x04, 0x00, 0x00, 0x6A, 0x15])\<lparr>pc := 0x204, opcode := 0x1204\<rparr>))
     \<le> 4094 \<and>
   fetch_indices ((boot [0x12, 0x04, 0x00, 0x00, 0x6A, 0x15])\<lparr>pc := 0x204, opcode := 0x1204\<rparr>)
     = [516, 517] \<and>
   fetch ((boot [0x12, 0x04, 0x00, 0x00, 0x6A, 0x15])\<lparr>pc := 0x204, opcode := 0x1204\<rparr>)
     = ([516, 517], Inr 0x6A15)"
proof -
  let ?s = "(boot [0x12, 0x04, 0x00, 0x00, 0x6A, 0x15])\<lparr>pc := 0x204, opcode := 0x1204\<rparr>"
  have step: "emulateCycle (boot [0x12, 0x04, 0x00, 0x00, 0x6A, 0x15]) = Inr ([], ?s)"
    by (simp add: step_simps)
  have b: "unat (pc ?s) \<le> 4094"
    by simp
  from fetch_bounds [of ?s] b
  have "fetch_indices ?s = [unat (pc ?s), unat (pc ?s) + 1]"
    and "fetch ?s =
        ([unat (pc ?s), unat (pc ?s) + 1],
         Inr (push_bit 8 (ucast (memory ?s ! unat (pc ?s))) OR
              ucast (memory ?s ! (unat (pc ?s) + 1))))"
    by blast+
  then have "fetch_indices ?s = [516, 517]" and "fetch ?s = ([516, 517], Inr 0x6A15)"
    by (simp_all add: boot_memory_nth)
  moreover have "fst (fetch ?s) = [516, 517]" and "snd (fetch ?s) = Inr 0x6A15"
    by (simp_all add: fetch_def read_memory_def MEMORY_SIZE_def boot_memory_nth)
  ultimately show ?thesis
    using step b by blast
qed

section \<open>Call and return\<close>

lemma executeOpcode_call:
  assumes "opcode s AND 0xF000 = 0x2000" and "unat (sp s) < STACK_SIZE"
  shows "executeOpcode s =
     Inr ([], s\<lparr>stack := (stack s)[unat (sp s) := pc s], sp := sp s + 1,
                pc := opcode s AND 0x0FFF\<rparr>)"
  using assms by (simp add: executeOpcode_def Let_def)

lemma executeOpcode_call_overflow:
  assumes "opcode s AND 0xF000 = 0x2000" and "\<not> unat (sp s) < STACK_SIZE"
  shows "executeOpcode s = Inl (Out_of_bounds Stack_array (unat (sp s)))"
  using assms by (simp add: executeOpcode_def Let_def)

lemma executeOpcode_return:
  assumes "opcode s = 0x00EE" and "unat (sp s - 1) < STACK_SIZE"
  shows "executeOpcode s = Inr ([], s\<lparr>sp := sp s - 1, pc := stack s ! unat (sp s - 1) + 2\<rparr>)"
  using assms by (simp add: executeOpcode_def Let_def)

lemma executeOpcode_return_underflow:
  assumes "opcode s = 0x00EE" and "sp s = 0"
  shows "executeOpcode s = Inl (Out_of_bounds Stack_array 255)"
  using assms
  by (simp add: executeOpcode_def Let_def STACK_SIZE_def unsigned_minus_1_eq_mask mask_eq_exp_minus_1)

text \<open>
  C3. Let the two bytes at \<open>pc = A\<close> be a call \<open>2NNN\<close>, with fewer than 16 entries on the
  stack. The cycle ends with the program counter at \<open>NNN\<close>. Whenever execution is later at
  \<open>NNN\<close> with the stack as the call left it (same stack pointer, same entry in the slot the
  call wrote) and the word at \<open>NNN\<close> is \<open>00EE\<close>, that cycle ends with the program counter at
  \<open>A + 2\<close>. The call leaves the memory as it was, so this covers the state right after the
  call when \<open>00EE\<close> is stored at \<open>NNN\<close>. Of the work area only its upper end matters:
  \<open>NNN \<le> 0xFFE\<close>, so that the two bytes at \<open>NNN\<close> can be fetched.
\<close>

theorem call_then_return:
  assumes "unat (pc s) + 1 < MEMORY_SIZE"
    and "instruction_word s AND 0xF000 = 0x2000"
    and "unat (sp s) < STACK_SIZE"
    and "length (stack s) = STACK_SIZE"
    and "instruction_word s AND 0x0FFF \<le> 0xFFE"
  shows "\<exists>s1. emulateCycle s = Inr ([], s1) \<and> pc s1 = instruction_word s AND 0x0FFF \<and>
           memory s1 = memory s \<and>
           (\<forall>t. pc t = pc s1 \<and> sp t = sp s1 \<and>
                 stack t ! unat (sp s) = stack s1 ! unat (sp s) \<and>
                 instruction_word t = 0x00EE \<longrightarrow>
                 (\<exists>s2. emulateCycle t = Inr ([], s2) \<and> pc s2 = pc s + 2 \<and> sp s2 = sp s))"
proof -
  let ?w = "instruction_word s"
  let ?s1 = "s\<lparr>opcode := ?w, stack := (stack s)[unat (sp s) := pc s], sp := sp s + 1,
               pc := ?w AND 0x0FFF\<rparr>"
  have step1: "emulateCycle s = Inr ([], ?s1)"
    using assms(1-3) by (simp add: emulateCycle_in_bounds executeOpcode_call)
  have top: "stack ?s1 ! unat (sp s) = pc s"
    using assms(3,4) by simp
  have "\<exists>s2. emulateCycle t = Inr ([], s2) \<and> pc s2 = pc s + 2 \<and> sp s2 = sp s"
    if t: "pc t = pc ?s1" "sp t = sp ?s1" "stack t ! unat (sp s) = stack ?s1 ! unat (sp s)"
      "instruction_word t = 0x00EE" for t
  proof -
    have "unat (pc t) \<le> 0xFFE"
      using assms(5) t(1) by (simp add: word_le_nat_alt)
    then have fetch: "emulateCycle t = executeOpcode (t\<lparr>opcode := 0x00EE\<rparr>)"
      using t(4) by (simp add: emulateCycle_in_bounds MEMORY_SIZE_def)
    have sp: "sp t - 1 = sp s"
      using t(2) by simp
    have "executeOpcode (t\<lparr>opcode := 0x00EE\<rparr>) =
            Inr ([], t\<lparr>opcode := 0x00EE, sp := sp s, pc := stack t ! unat (sp s) + 2\<rparr>)"
      using assms(3) sp by (simp add: executeOpcode_return)
    with fetch t(3) top show ?thesis by simp
  qed
  with step1 show ?thesis by (intro exI [of _ ?s1]) simp
qed


theorem call_then_return_witness:
  "\<exists>s2. cycles 2 (boot [0x22, 0x10, 0, 0, 0, 0, 0, 0, 0, 0, 0, 0, 0, 0, 0, 0, 0x00, 0xEE]) = Inr ([], s2) \<and> pc s2 = 0x202 \<and> sp s2 = 0"
proof -
  let ?s = "boot [0x22, 0x10, 0, 0, 0, 0, 0, 0, 0, 0, 0, 0, 0, 0, 0, 0, 0x00, 0xEE]"
  have w: "instruction_word ?s = 0x2210"
    by (simp add: instruction_word_def boot_fields boot_memory_nth)
  from call_then_return [of ?s]
  obtain s1 where s1: "emulateCycle ?s = Inr ([], s1)" and pc1: "pc s1 = 0x210"
    and mem1: "memory s1 = memory ?s"
    and ret: "\<forall>t. pc t = pc s1 \<and> sp t = sp s1 \<and>
                 stack t ! unat (sp ?s) = stack s1 ! unat (sp ?s) \<and>
                 instruction_word t = 0x00EE \<longrightarrow>
                 (\<exists>s2. emulateCycle t = Inr ([], s2) \<and> pc s2 = pc ?s + 2 \<and> sp s2 = sp ?s)"
    by (auto simp: w boot_fields MEMORY_SIZE_def STACK_SIZE_def)
  have w1: "instruction_word s1 = 0x00EE"
    by (simp add: instruction_word_def pc1 mem1 boot_memory_nth)
  from ret [rule_format, of s1] w1
  obtain s2 where s2: "emulateCycle s1 = Inr ([], s2)" and "pc s2 = pc ?s + 2" and "sp s2 = sp ?s"
    by auto
  then have "cycles 2 ?s = Inr ([], s2) \<and> pc s2 = 0x202 \<and> sp s2 = 0"
    using s1 by (simp add: numeral_2_eq_2 boot_fields)
  then show ?thesis ..
qed

lemma cycles_numeral:
  "cycles (numeral n) s =
     (case emulateCycle s of
        Inl u \<Rightarrow> Inl u
      | Inr (d, s') \<Rightarrow>
          (case cycles (pred_numeral n) s' of
             Inl u \<Rightarrow> Inl u
           | Inr (d', s'') \<Rightarrow> Inr (d @ d', s'')))"
  by (simp add: numeral_eq_Suc)

text \<open>
  C2, as the code has it. A call \<open>2NNN\<close> fetched at \<open>pc\<close>, with fewer than 16 entries on the
  stack, stores \<open>pc\<close> itself (the address of the call, not \<open>pc + 2\<close>) in the slot \<open>stack[sp]\<close>,
  then increments the stack pointer by one, then sets the program counter to \<open>NNN\<close>; nothing
  else changes but the current-instruction field.
\<close>

theorem call_pushes_own_address:
  assumes "unat (pc s) + 1 < MEMORY_SIZE"
    and "instruction_word s AND 0xF000 = 0x2000"
    and "unat (sp s) < STACK_SIZE"
    and "length (stack s) = STACK_SIZE"
  shows "emulateCycle s =
           Inr ([], s\<lparr>opcode := instruction_word s,
                      stack := (stack s)[unat (sp s) := pc s],
                      sp := sp s + 1,
                      pc := instruction_word s AND 0x0FFF\<rparr>) \<and>
         (stack s)[unat (sp s) := pc s] ! unat (sp s) = pc s \<and>
         unat (sp s + 1) = unat (sp s) + 1"
proof -
  have "unat (sp s) + 1 < 2 ^ LENGTH(8)"
    using assms(3) by (simp add: STACK_SIZE_def)
  then have "unat (sp s + 1) = unat (sp s) + 1"
    by (simp add: unat_add_lem [THEN iffD1])
  with assms show ?thesis
    by (simp add: emulateCycle_in_bounds executeOpcode_call)
qed

theorem call_pushes_own_address_witness:
  "emulateCycle (boot [0x22, 0x10]) =
     Inr ([], (boot [0x22, 0x10])\<lparr>opcode := 0x2210, stack := (replicate 16 0)[0 := 0x200],
                                  sp := 1, pc := 0x210\<rparr>)"
proof -
  have w: "instruction_word (boot [0x22, 0x10]) = 0x2210"
    by (simp add: instruction_word_def boot_fields boot_memory_nth)
  show ?thesis
    using call_pushes_own_address [of "boot [0x22, 0x10]"]
    by (simp add: w boot_fields MEMORY_SIZE_def STACK_SIZE_def)
qed

text \<open>
  The claim C2 as stated fails: from the start of the run, the call \<open>22 10\<close> at \<open>0x200\<close>
  leaves \<open>0x200\<close> in \<open>stack[0]\<close>, which is not \<open>pc + 2 = 0x202\<close>.
\<close>

theorem call_pushes_next_address_counterexample:
  "emulateCycle (boot [0x22, 0x10]) =
     Inr ([], (boot [0x22, 0x10])\<lparr>opcode := 0x2210, stack := (replicate 16 0)[0 := 0x200],
                                  sp := 1, pc := 0x210\<rparr>) \<and>
   stack ((boot [0x22, 0x10])\<lparr>opcode := 0x2210, stack := (replicate 16 0)[0 := 0x200],
                                sp := 1, pc := 0x210\<rparr>) ! 0 = 0x200 \<and>
   pc (boot [0x22, 0x10]) + 2 = 0x202"
  by (simp add: step_simps)

text \<open>
  C6, evaluated on the code. The program \<open>00 EE\<close> returns with an empty stack on its first
  cycle: \<open>--sp\<close> wraps the 8-bit stack pointer from 0 to 255 and \<open>stack[255]\<close> is read, outside
  the 16 entries. The code has no check and reports nothing.
\<close>

theorem return_on_empty_stack:
  "sp (boot [0x00, 0xEE]) = 0 \<and> instruction_word (boot [0x00, 0xEE]) = 0x00EE \<and>
   sp (boot [0x00, 0xEE]) - 1 = 255 \<and>
   emulateCycle (boot [0x00, 0xEE]) = Inl (Out_of_bounds Stack_array 255)"
  by (simp add: step_simps unsigned_minus_1_eq_mask mask_eq_exp_minus_1)

section \<open>The families the code leaves as placeholders\<close>

lemma executeOpcode_family_8:
  assumes "opcode s AND 0xF000 = 0x8000"
  shows "executeOpcode s = Inr ([Todo_8XYN], s\<lparr>pc := pc s + 2\<rparr>)"
  using assms by (simp add: executeOpcode_def Let_def)

lemma executeOpcode_families_B_to_F:
  assumes "opcode s AND 0xF000 \<in> {0xB000, 0xC000, 0xD000, 0xE000, 0xF000}"
  shows "executeOpcode s = Inr ([Not_yet_implemented (opcode s)], s\<lparr>pc := pc s + 2\<rparr>)"
  using assms by (auto simp: executeOpcode_def Let_def)

text \<open>
  C1, evaluated on the code. The program \<open>60 C8 61 64 80 14\<close> sets \<open>V0 := 200\<close>,
  \<open>V1 := 100\<close> and executes \<open>8014\<close>. The code prints its to-do line for the whole \<open>8XYN\<close>
  family and only advances the program counter: \<open>V0\<close> is still 200 (not 44) and \<open>VF\<close> is
  still 0 (not 1).
\<close>

theorem add_with_carry_not_implemented:
  "cycles 3 (boot [0x60, 0xC8, 0x61, 0x64, 0x80, 0x14]) =
     Inr ([Todo_8XYN],
          (boot [0x60, 0xC8, 0x61, 0x64, 0x80, 0x14])
            \<lparr>V := (replicate 16 0)[0 := 200, 1 := 100], pc := 0x206, opcode := 0x8014\<rparr>) \<and>
   (replicate 16 (0 :: u8))[0 := 200, 1 := 100] ! 0 = 200 \<and>
   (replicate 16 (0 :: u8))[0 := 200, 1 := 100] ! 15 = 0"
  by (simp add: cycles_numeral step_simps)

text \<open>
  C7, evaluated on the code. The program sets \<open>V0, V1, V2\<close> to \<open>0x0B, 0x16, 0x21\<close>, then runs
  \<open>A220\<close>, \<open>F255\<close>, \<open>6000\<close>, \<open>6100\<close>, \<open>6200\<close>, \<open>F265\<close>. The code prints its not-implemented
  line for \<open>F255\<close> and for \<open>F265\<close> and only advances the program counter: nothing is stored
  at \<open>0x220\<close> and the registers stay zero instead of getting their values back.
\<close>

theorem store_load_not_implemented:
  "(case cycles 9 (boot [0x60, 0x0B, 0x61, 0x16, 0x62, 0x21, 0xA2, 0x20, 0xF2, 0x55,
                         0x60, 0x00, 0x61, 0x00, 0x62, 0x00, 0xF2, 0x65]) of
      Inl u \<Rightarrow> False
    | Inr (d, s') \<Rightarrow>
        d = [Not_yet_implemented 0xF255, Not_yet_implemented 0xF265] \<and>
        I s' = 0x220 \<and> pc s' = 0x212 \<and>
        V s' ! 0 = 0 \<and> V s' ! 1 = 0 \<and> V s' ! 2 = 0 \<and>
        memory s' ! 0x220 = 0 \<and> memory s' ! 0x221 = 0 \<and> memory s' ! 0x222 = 0)"
  by (simp add: cycles_numeral step_simps)

lemma low_byte_eq:
  fixes w :: u16 and k :: u8
  shows "(ucast (w AND 0x00FF) :: u8) = k \<longleftrightarrow> w AND 0x00FF = ucast k"
proof -
  have "w AND 0xFF \<le> 0xFF" by (rule word_and_le1)
  then have b: "unat (w AND 0xFF) < 256" by (simp add: word_le_nat_alt)
  have l: "unat (ucast (w AND 0xFF) :: u8) = unat (w AND 0xFF)"
    using b by (simp add: unsigned_ucast_eq take_bit_nat_eq_self)
  have "unat k < 256" using unsigned_less [of k, where ?'a = nat] by simp
  then have r: "unat (ucast k :: u16) = unat k"
    by (simp add: unsigned_ucast_eq take_bit_nat_eq_self)
  show ?thesis
    by (simp add: word_unat_eq_iff l r)
qed

lemma low_byte_E0: "(ucast (w AND 0x00FF :: u16) :: u8) = 0xE0 \<longleftrightarrow> w AND 0x00FF = 0xE0"
  by (simp add: low_byte_eq)

lemma low_byte_EE: "(ucast (w AND 0x00FF :: u16) :: u8) = 0xEE \<longleftrightarrow> w AND 0x00FF = 0xEE"
  by (simp add: low_byte_eq)


section \<open>Words the decoder does not recognise\<close>

text \<open>
  C8, as the code has it. Let the fetched word match no pattern of the specification's
  table, and let it not be one of the words the code's decoder takes for an instruction all
  the same: the decoder looks only at the first nibble of \<open>5XYN\<close> and \<open>9XYN\<close>, and only at
  the first nibble and the low byte of \<open>0XE0\<close> and \<open>0XEE\<close>. Then the cycle writes one line
  to the error stream (the unknown-opcode line in family 0, a to-do line otherwise), advances
  the program counter by exactly 2 and changes nothing else but the current-instruction
  field.
\<close>

theorem unknown_word_advances:
  assumes "unat (pc s) + 1 < MEMORY_SIZE"
    and "\<not> spec_known_pattern (instruction_word s)"
    and "instruction_word s AND 0xF000 \<notin> {0x5000, 0x9000}"
    and "\<not> (instruction_word s AND 0xF000 = 0 \<and> instruction_word s AND 0x00FF \<in> {0xE0, 0xEE})"
  shows "emulateCycle s =
           Inr ([if instruction_word s AND 0xF000 = 0 then Unknown_opcode (instruction_word s)
                 else if instruction_word s AND 0xF000 = 0x8000 then Todo_8XYN
                 else Not_yet_implemented (instruction_word s)],
                s\<lparr>opcode := instruction_word s, pc := pc s + 2\<rparr>)"
  using assms
  by (simp add: emulateCycle_in_bounds executeOpcode_def Let_def spec_known_pattern_def
      low_byte_E0 low_byte_EE)

theorem unknown_word_advances_witness:
  "\<not> spec_known_pattern 0x0123 \<and>
   emulateCycle (boot [0x01, 0x23]) =
     Inr ([Unknown_opcode 0x0123], (boot [0x01, 0x23])\<lparr>opcode := 0x0123, pc := 0x202\<rparr>)"
proof -
  have w: "instruction_word (boot [0x01, 0x23]) = 0x0123"
    by (simp add: instruction_word_def boot_fields boot_memory_nth)
  have k: "\<not> spec_known_pattern 0x0123"
    by (simp add: spec_known_pattern_def)
  show ?thesis
    using unknown_word_advances [of "boot [0x01, 0x23]"] k
    by (simp add: w boot_fields MEMORY_SIZE_def)
qed

text \<open>
  The claim C8 as stated fails: \<open>5001\<close> matches no pattern of the table (\<open>5XY0\<close> needs a low
  nibble of 0), yet the code executes it as the skip \<open>5XY0\<close>. From the start of the run
  \<open>V0 = V0\<close> holds, so the program counter advances by 4, and nothing is reported.
\<close>

theorem unknown_word_counterexample:
  "\<not> spec_known_pattern 0x5001 \<and>
   instruction_word (boot [0x50, 0x01]) = 0x5001 \<and>
   pc (boot [0x50, 0x01]) = 0x200 \<and>
   emulateCycle (boot [0x50, 0x01]) =
     Inr ([], (boot [0x50, 0x01])\<lparr>opcode := 0x5001, pc := 0x204\<rparr>)"
  by (simp add: spec_known_pattern_def step_simps)

section \<open>Range of the program counter\<close>











section \<open>The arrays keep their sizes\<close>

lemma wf_initialize: "wf initialize"
  by (simp add: wf_def initialize_def length_fontset MEMORY_SIZE_def FONTSET_SIZE_def)

lemma wf_loadROM:
  assumes "wf s"
  shows "wf (snd (loadROM fs filename s))"
proof (cases "fs filename")
  case None
  with assms show ?thesis by (simp add: loadROM_def)
next
  case (Some bytes)
  with assms show ?thesis
    by (auto simp: loadROM_Some wf_def MEMORY_SIZE_def)
qed

lemma wf_executeOpcode:
  assumes "wf s" and "executeOpcode s = Inr (d, s')"
  shows "wf s'"
  using assms by (auto simp: executeOpcode_def Let_def wf_def split: if_splits)

lemma wf_emulateCycle:
  assumes "wf s" and "emulateCycle s = Inr (d, s')"
  shows "wf s'"
proof -
  have "wf (s\<lparr>opcode := instruction_word s\<rparr>)"
    using assms(1) by (simp add: wf_def)
  moreover have "executeOpcode (s\<lparr>opcode := instruction_word s\<rparr>) = Inr (d, s')"
    using assms(2) by (simp add: emulateCycle_def fetch_def read_memory_def instruction_word_def
        split: if_splits)
  ultimately show ?thesis by (rule wf_executeOpcode)
qed

lemma wf_updateTimers: "wf s \<Longrightarrow> wf (updateTimers s)"
  by (simp add: updateTimers_eq wf_def)

end
